theory Spec2Isabelle
  imports Main
begin

section \<open>Values, exceptions and console output\<close>

text \<open>
  The planner answers with parsed JSON, and the dispatcher inspects it dynamically
  (\<^verbatim>\<open>isinstance(action, dict)\<close>, \<^verbatim>\<open>action.get("name")\<close>), so the plan is kept as a JSON
  value. A dict is an association list read with \<open>map_of\<close>.
\<close>

datatype json =
    JNull
  | JBool bool
  | JNum int
  | JStr string
  | JArr "json list"
  | JObj "(string \<times> json) list"

text \<open>Python truthiness, as used by \<^verbatim>\<open>if reply:\<close>, \<^verbatim>\<open>if action and ...\<close> and \<^verbatim>\<open>x or ""\<close>.\<close>

fun truthy :: "json \<Rightarrow> bool" where
  "truthy JNull = False"
| "truthy (JBool b) = b"
| "truthy (JNum n) = (n \<noteq> 0)"
| "truthy (JStr s) = (s \<noteq> [])"
| "truthy (JArr xs) = (xs \<noteq> [])"
| "truthy (JObj kvs) = (kvs \<noteq> [])"

text \<open>\<^verbatim>\<open>d.get(k)\<close> and \<^verbatim>\<open>d.get(k, default)\<close> on a dict.\<close>

definition dict_get :: "(string \<times> json) list \<Rightarrow> string \<Rightarrow> json \<Rightarrow> json" where
  "dict_get kvs k dflt = (case map_of kvs k of None \<Rightarrow> dflt | Some v \<Rightarrow> v)"

text \<open>The exceptions (all subclasses of \<^verbatim>\<open>Exception\<close>) that the modelled code can meet.\<close>

datatype exn =
    TypeError string
  | ValueError string
  | OverflowError string
  | AttributeError string
  | DatabaseError string
  | ServiceError string

fun str_exn :: "exn \<Rightarrow> string" where
  "str_exn (TypeError m) = m"
| "str_exn (ValueError m) = m"
| "str_exn (OverflowError m) = m"
| "str_exn (AttributeError m) = m"
| "str_exn (DatabaseError m) = m"
| "str_exn (ServiceError m) = m"

text \<open>
  What reaches the user. An f-string is kept as its fragments, so that a JSON value
  interpolated into a message needs no rendering.
\<close>

datatype frag = Lit string | Val json

datatype event =
    Print "frag list"
  | Say "frag list"
  | Notification string string
  | Logging "frag list"

section \<open>Naive date-times (the part of \<^verbatim>\<open>datetime\<close> the scheduler uses)\<close>

record datetime =
  year :: nat
  month :: nat
  day :: nat
  hour :: nat
  minute :: nat
  second :: nat
  microsecond :: nat

record timedelta =
  days :: nat
  seconds :: nat
  microseconds :: nat

text \<open>\<^verbatim>\<open>timedelta(weeks=w, days=d, hours=h)\<close>, normalised as the constructor does.\<close>

definition mk_timedelta :: "nat \<Rightarrow> nat \<Rightarrow> nat \<Rightarrow> timedelta" where
  "mk_timedelta w d h =
     \<lparr>days = 7 * w + d + h div 24, seconds = (h mod 24) * 3600, microseconds = 0\<rparr>"

definition MAXORDINAL :: nat where
  "MAXORDINAL = 3652059"

definition is_leap :: "nat \<Rightarrow> bool" where
  "is_leap y = (y mod 4 = 0 \<and> (y mod 100 \<noteq> 0 \<or> y mod 400 = 0))"

definition DAYS_IN_MONTH :: "nat list" where
  "DAYS_IN_MONTH = [0, 31, 28, 31, 30, 31, 30, 31, 31, 30, 31, 30, 31]"

definition DAYS_BEFORE_MONTH :: "nat list" where
  "DAYS_BEFORE_MONTH = [0, 0, 31, 59, 90, 120, 151, 181, 212, 243, 273, 304, 334]"

definition days_before_year :: "nat \<Rightarrow> nat" where
  "days_before_year y = (y - 1) * 365 + (y - 1) div 4 - (y - 1) div 100 + (y - 1) div 400"

definition days_in_month :: "nat \<Rightarrow> nat \<Rightarrow> nat" where
  "days_in_month y m = (if m = 2 \<and> is_leap y then 29 else DAYS_IN_MONTH ! m)"

definition days_before_month :: "nat \<Rightarrow> nat \<Rightarrow> nat" where
  "days_before_month y m = DAYS_BEFORE_MONTH ! m + (if 2 < m \<and> is_leap y then 1 else 0)"

definition ymd2ord :: "nat \<Rightarrow> nat \<Rightarrow> nat \<Rightarrow> nat" where
  "ymd2ord y m d = days_before_year y + days_before_month y m + d"

text \<open>The inverse, for ordinals \<open>1 \<le> n\<close>: the 400/100/4/1-year cycle decomposition.\<close>

definition ord2ymd :: "nat \<Rightarrow> nat \<times> nat \<times> nat" where
  "ord2ymd n0 =
     (let n = n0 - 1;
          n400 = n div 146097; n = n mod 146097;
          n100 = n div 36524; n = n mod 36524;
          n4 = n div 1461; n = n mod 1461;
          n1 = n div 365; n = n mod 365;
          y = n400 * 400 + 1 + n100 * 100 + n4 * 4 + n1
      in if n1 = 4 \<or> n100 = 4 then (y - 1, 12, 31)
         else
           let leapyear = (n1 = 3 \<and> (n4 \<noteq> 24 \<or> n100 = 3));
               m = (n + 50) div 32;
               preceding = DAYS_BEFORE_MONTH ! m + (if 2 < m \<and> leapyear then 1 else 0)
           in if n < preceding
              then (y, m - 1,
                    n + 1 - (preceding
                       - (DAYS_IN_MONTH ! (m - 1) + (if m - 1 = 2 \<and> leapyear then 1 else 0))))
              else (y, m, n + 1 - preceding))"

text \<open>The constructor's range checks (\<^verbatim>\<open>ValueError\<close> otherwise).\<close>

definition valid_datetime :: "datetime \<Rightarrow> bool" where
  "valid_datetime d =
     (1 \<le> year d \<and> year d \<le> 9999 \<and> 1 \<le> month d \<and> month d \<le> 12 \<and>
      1 \<le> day d \<and> day d \<le> days_in_month (year d) (month d) \<and>
      hour d < 24 \<and> minute d < 60 \<and> second d < 60 \<and> microsecond d < 1000000)"

text \<open>
  \<^verbatim>\<open>dt + delta\<close>: through the ordinal and the time of day, with
  \<^verbatim>\<open>OverflowError\<close> beyond year 9999.
\<close>

definition dt_add :: "datetime \<Rightarrow> timedelta \<Rightarrow> exn + datetime" where
  "dt_add dt td =
     (let us = microsecond dt + microseconds td;
          s = hour dt * 3600 + minute dt * 60 + second dt + seconds td + us div 1000000;
          d = ymd2ord (year dt) (month dt) (day dt) + days td + s div 86400;
          r = s mod 86400
      in if 0 < d \<and> d \<le> MAXORDINAL
         then (case ord2ymd d of (y, m, dd) \<Rightarrow>
                 Inr \<lparr>year = y, month = m, day = dd, hour = r div 3600,
                      minute = (r mod 3600) div 60, second = r mod 60,
                      microsecond = us mod 1000000\<rparr>)
         else Inl (OverflowError ''date value out of range''))"



text \<open>\<^verbatim>\<open>a >= b\<close> on naive date-times: the fields compared in order.\<close>

fun lex_le :: "nat list \<Rightarrow> nat list \<Rightarrow> bool" where
  "lex_le [] ys = True"
| "lex_le (x # xs) [] = False"
| "lex_le (x # xs) (y # ys) = (x < y \<or> (x = y \<and> lex_le xs ys))"

definition dt_fields :: "datetime \<Rightarrow> nat list" where
  "dt_fields d = [year d, month d, day d, hour d, minute d, second d, microsecond d]"

definition dt_ge :: "datetime \<Rightarrow> datetime \<Rightarrow> bool" where
  "dt_ge a b = lex_le (dt_fields b) (dt_fields a)"

subsection \<open>Formatting: \<^verbatim>\<open>isoformat(timespec=...)\<close>\<close>

definition digit_char :: "nat \<Rightarrow> char" where
  "digit_char n = ''0123456789'' ! n"

fun digits :: "nat \<Rightarrow> string" where
  "digits n = (if n < 10 then [digit_char n] else digits (n div 10) @ [digit_char (n mod 10)])"

declare digits.simps [simp del]

text \<open>\<^verbatim>\<open>"%0wd" % n\<close>.\<close>

definition zpad :: "nat \<Rightarrow> nat \<Rightarrow> string" where
  "zpad w n = replicate (w - length (digits n)) (CHR ''0'') @ digits n"

definition isoformat_minutes :: "datetime \<Rightarrow> string" where
  "isoformat_minutes d =
     zpad 4 (year d) @ ''-'' @ zpad 2 (month d) @ ''-'' @ zpad 2 (day d) @ ''T'' @
     zpad 2 (hour d) @ '':'' @ zpad 2 (minute d)"

definition isoformat_seconds :: "datetime \<Rightarrow> string" where
  "isoformat_seconds d = isoformat_minutes d @ '':'' @ zpad 2 (second d)"

subsection \<open>Parsing: \<^verbatim>\<open>datetime.fromisoformat\<close>\<close>

text \<open>
  \<^verbatim>\<open>datetime.fromisoformat\<close> is the running interpreter's, and what it accepts depends on
  the interpreter: CPython 3.7 to 3.10 read the texts \<^verbatim>\<open>isoformat()\<close> writes, CPython 3.11
  and later read most of ISO 8601 besides (a \<^verbatim>\<open>Z\<close> suffix, the basic format, week dates).
  The scheduler therefore takes the parser as a parameter: a function from the column's
  value (\<open>None\<close> for NULL) to the exception raised or to the date-time read, with its UTC
  offset in minutes when the text carries one (an aware date-time).
\<close>

type_synonym isoparser = "string option \<Rightarrow> exn + (datetime \<times> int option)"


text \<open>
  One such parser, used for the examples. \<open>read_isoformat\<close> reads the texts that
  \<^verbatim>\<open>isoformat()\<close> writes for a naive date-time or for one with a whole-minute offset,
  \<^verbatim>\<open>YYYY-MM-DD[*HH[:MM[:SS[.fff[fff]]]][(+|-)HH:MM]]\<close> with \<^verbatim>\<open>*\<close> any one character, and
  answers \<^verbatim>\<open>ValueError\<close> on every other text, also on those a given CPython reads.
  On a text it reads, every CPython since 3.7 returns the same date-time. The examples
  use such texts only, and the text \<^verbatim>\<open>tomorrow\<close>, which no CPython reads.
\<close>

definition digit_val :: "char \<Rightarrow> nat option" where
  "digit_val c =
     map_of [(CHR ''0'', 0), (CHR ''1'', 1), (CHR ''2'', 2), (CHR ''3'', 3), (CHR ''4'', 4),
             (CHR ''5'', 5), (CHR ''6'', 6), (CHR ''7'', 7), (CHR ''8'', 8), (CHR ''9'', 9)] c"

fun parse_digits :: "string \<Rightarrow> nat \<Rightarrow> nat option" where
  "parse_digits [] acc = Some acc"
| "parse_digits (c # cs) acc =
     (case digit_val c of None \<Rightarrow> None | Some v \<Rightarrow> parse_digits cs (10 * acc + v))"

definition parse_date :: "string \<Rightarrow> (nat \<times> nat \<times> nat) option" where
  "parse_date s =
     (if length s = 10 \<and> s ! 4 = CHR ''-'' \<and> s ! 7 = CHR ''-''
      then (case parse_digits (take 4 s) 0 of None \<Rightarrow> None | Some y \<Rightarrow>
            (case parse_digits (take 2 (drop 5 s)) 0 of None \<Rightarrow> None | Some m \<Rightarrow>
            (case parse_digits (drop 8 s) 0 of None \<Rightarrow> None | Some d \<Rightarrow> Some (y, m, d))))
      else None)"

text \<open>\<^verbatim>\<open>HH[:MM[:SS[.fff[fff]]]]\<close>, by length.\<close>

definition parse_hh_mm_ss_ff :: "string \<Rightarrow> (nat \<times> nat \<times> nat \<times> nat) option" where
  "parse_hh_mm_ss_ff s =
     (let n = length s in
      if n \<notin> {2, 5, 8, 12, 15} then None
      else if 5 \<le> n \<and> s ! 2 \<noteq> CHR '':'' then None
      else if 8 \<le> n \<and> s ! 5 \<noteq> CHR '':'' then None
      else if 12 \<le> n \<and> s ! 8 \<noteq> CHR ''.'' then None
      else
        (case parse_digits (take 2 s) 0 of None \<Rightarrow> None | Some h \<Rightarrow>
        (case parse_digits (take 2 (drop 3 s)) 0 of None \<Rightarrow> None | Some mi \<Rightarrow>
        (case parse_digits (take 2 (drop 6 s)) 0 of None \<Rightarrow> None | Some sec \<Rightarrow>
        (case parse_digits (drop 9 s) 0 of None \<Rightarrow> None | Some f \<Rightarrow>
           Some (h, mi, sec, if n = 12 then f * 1000 else f))))))"

definition is_sign :: "char \<Rightarrow> bool" where
  "is_sign c = (c = CHR ''+'' \<or> c = CHR ''-'')"

definition parse_offset :: "string \<Rightarrow> int option option" where
  "parse_offset s =
     (case s of
        [] \<Rightarrow> Some None
      | sg # r \<Rightarrow>
          if length r = 5 \<and> r ! 2 = CHR '':''
          then (case parse_digits (take 2 r) 0 of None \<Rightarrow> None | Some h \<Rightarrow>
               (case parse_digits (drop 3 r) 0 of None \<Rightarrow> None | Some mi \<Rightarrow>
                  if h < 24 \<and> mi < 60
                  then Some (Some ((if sg = CHR ''-'' then - 1 else 1) * int (60 * h + mi)))
                  else None))
          else None)"

definition parse_isoformat_time ::
    "string \<Rightarrow> ((nat \<times> nat \<times> nat \<times> nat) \<times> int option) option" where
  "parse_isoformat_time t =
     (case parse_hh_mm_ss_ff (takeWhile (\<lambda>c. \<not> is_sign c) t) of
        None \<Rightarrow> None
      | Some c \<Rightarrow>
          (case parse_offset (dropWhile (\<lambda>c. \<not> is_sign c) t) of
             None \<Rightarrow> None
           | Some tz \<Rightarrow> Some (c, tz)))"

definition read_isoformat :: isoparser where
  "read_isoformat v =
     (case v of
        None \<Rightarrow> Inl (TypeError ''fromisoformat: argument must be str'')
      | Some s \<Rightarrow>
          (case parse_date (take 10 s) of
             None \<Rightarrow> Inl (ValueError (''Invalid isoformat string: '' @ s))
           | Some (y, m, d) \<Rightarrow>
               (case (if length s \<le> 10 then Some ((0, 0, 0, 0), None)
                      else parse_isoformat_time (drop 11 s)) of
                  None \<Rightarrow> Inl (ValueError (''Invalid isoformat string: '' @ s))
                | Some ((h, mi, sec, us), tz) \<Rightarrow>
                    (let dt = \<lparr>year = y, month = m, day = d, hour = h, minute = mi,
                               second = sec, microsecond = us\<rparr>
                     in if valid_datetime dt then Inr (dt, tz)
                        else Inl (ValueError (''Invalid isoformat string: '' @ s))))))"

section \<open>Persistent store\<close>

text \<open>
  The \<^verbatim>\<open>reminders\<close> and \<^verbatim>\<open>logs\<close> tables, in rowid order. The column \<^verbatim>\<open>text\<close> is the
  field \<open>body\<close>. A log row's id is its position; its payload column holds
  \<^verbatim>\<open>json.dumps(payload)\<close>, kept here as the value itself.

  Every database call of the source (connect, execute, commit, close) is one step that
  either raises or takes effect. Whether it raises is the environment's choice:
  \<open>faults\<close> lists the outcome of the coming database calls, \<open>True\<close> for one that
  raises; once the list is used up every call succeeds.
\<close>

record reminder =
  rid :: nat
  body :: string
  due_at :: "string option"
  repeat_rule :: "string option"

record log_entry =
  ts :: string
  kind :: string
  payload :: json

record state =
  reminders :: "reminder list"
  logs :: "log_entry list"
  out :: "event list"
  faults :: "bool list"

definition db_call :: "state \<Rightarrow> bool \<times> state" where
  "db_call st = (case faults st of [] \<Rightarrow> (False, st) | f # fs \<Rightarrow> (f, st\<lparr>faults := fs\<rparr>))"

definition db_error :: exn where
  "db_error = DatabaseError ''database error''"

definition db_log :: "datetime \<Rightarrow> string \<Rightarrow> json \<Rightarrow> state \<Rightarrow> exn option \<times> state" where
  "db_log now k p st =
     (case db_call st of
        (True, st') \<Rightarrow> (Some db_error, st')
      | (False, st') \<Rightarrow>
          (None, st'\<lparr>logs := logs st' @ [\<lparr>ts = isoformat_seconds now, kind = k, payload = p\<rparr>]\<rparr>))"

definition delete_reminder :: "nat \<Rightarrow> state \<Rightarrow> exn option \<times> state" where
  "delete_reminder i st =
     (case db_call st of
        (True, st') \<Rightarrow> (Some db_error, st')
      | (False, st') \<Rightarrow> (None, st'\<lparr>reminders := filter (\<lambda>r. rid r \<noteq> i) (reminders st')\<rparr>))"

text \<open>\<^verbatim>\<open>UPDATE reminders SET due_at=? WHERE id=?\<close>, written inline in the scheduler.\<close>

definition update_due_at :: "nat \<Rightarrow> string \<Rightarrow> state \<Rightarrow> exn option \<times> state" where
  "update_due_at i v st =
     (case db_call st of
        (True, st') \<Rightarrow> (Some db_error, st')
      | (False, st') \<Rightarrow>
          (None, st'\<lparr>reminders :=
                       map (\<lambda>r. if rid r = i then r\<lparr>due_at := Some v\<rparr> else r) (reminders st')\<rparr>))"

text \<open>\<^verbatim>\<open>SELECT id, text, due_at, repeat_rule FROM reminders\<close>.\<close>

definition select_reminders :: "state \<Rightarrow> (exn + reminder list) \<times> state" where
  "select_reminders st =
     (case db_call st of
        (True, st') \<Rightarrow> (Inl db_error, st')
      | (False, st') \<Rightarrow> (Inr (reminders st'), st'))"

section \<open>Reply surfaces\<close>

text \<open>
  \<^verbatim>\<open>notify\<close> tries the desktop notification and prints the line; \<^verbatim>\<open>tts_say\<close> speaks when a
  speech engine is there. Both swallow their own failures, so neither raises.
\<close>

definition notify :: "string \<Rightarrow> string \<Rightarrow> state \<Rightarrow> state" where
  "notify title message st = st\<lparr>out := out st @ [Notification title message]\<rparr>"

definition tts_say :: "frag list \<Rightarrow> state \<Rightarrow> state" where
  "tts_say t st = st\<lparr>out := out st @ [Say t]\<rparr>"

definition print :: "frag list \<Rightarrow> state \<Rightarrow> state" where
  "print t st = st\<lparr>out := out st @ [Print t]\<rparr>"

section \<open>Reminder scheduler\<close>

text \<open>
  The rule chain of \<^verbatim>\<open>scheduler_loop\<close>: the next due time, \<open>None\<close> for a rule that is
  none of the three, an \<^verbatim>\<open>OverflowError\<close> when the sum leaves the calendar.
\<close>

definition next_due :: "string \<Rightarrow> datetime \<Rightarrow> exn + datetime option" where
  "next_due rule dt =
     (if rule = ''daily'' then map_sum id Some (dt_add dt (mk_timedelta 0 1 0))
      else if rule = ''hourly'' then map_sum id Some (dt_add dt (mk_timedelta 0 0 1))
      else if rule = ''weekly'' then map_sum id Some (dt_add dt (mk_timedelta 1 0 0))
      else Inr None)"


text \<open>
  The body of the \<^verbatim>\<open>for\<close> loop for one row. \<open>(None, st')\<close> is \<^verbatim>\<open>continue\<close> or the end
  of the body; \<open>(Some e, st')\<close> is the exception \<open>e\<close> leaving the loop. Only
  \<^verbatim>\<open>fromisoformat\<close> sits in the inner \<^verbatim>\<open>try\<close>. \<^verbatim>\<open>now\<close> is naive, so comparing it with an
  aware date-time raises.
\<close>

definition scheduler_row ::
    "isoparser \<Rightarrow> datetime \<Rightarrow> reminder \<Rightarrow> state \<Rightarrow> exn option \<times> state" where
  "scheduler_row parse now r st =
     (case parse (due_at r) of
        Inl e \<Rightarrow> (None, st)
      | Inr (dt, tz) \<Rightarrow>
          if tz \<noteq> None
          then (Some (TypeError ''cannot compare offset-naive and offset-aware datetimes''), st)
          else if dt_ge now dt
          then
            (let st1 = tts_say [Lit ''Reminder: '', Lit (body r)]
                         (notify ''Reminder'' (body r) st)
             in case (case repeat_rule r of
                        None \<Rightarrow> Inr None
                      | Some rule \<Rightarrow> if rule = [] then Inr None else next_due rule dt) of
                  Inl e \<Rightarrow> (Some e, st1)
                | Inr (Some nxt) \<Rightarrow> update_due_at (rid r) (isoformat_minutes nxt) st1
                | Inr None \<Rightarrow> delete_reminder (rid r) st1)
          else (None, st))"

fun scheduler_rows ::
    "isoparser \<Rightarrow> datetime \<Rightarrow> reminder list \<Rightarrow> state \<Rightarrow> exn option \<times> state" where
  "scheduler_rows parse now [] st = (None, st)"
| "scheduler_rows parse now (r # rs) st =
     (case scheduler_row parse now r st of
        (Some e, st') \<Rightarrow> (Some e, st')
      | (None, st') \<Rightarrow> scheduler_rows parse now rs st')"

text \<open>
  The body of the outer \<^verbatim>\<open>try\<close>, with the exception that the outer
  \<^verbatim>\<open>except Exception: pass\<close> is about to swallow, if any.
\<close>

definition scheduler_try :: "isoparser \<Rightarrow> datetime \<Rightarrow> state \<Rightarrow> exn option \<times> state" where
  "scheduler_try parse now st =
     (case select_reminders st of
        (Inl e, st') \<Rightarrow> (Some e, st')
      | (Inr rows, st') \<Rightarrow> scheduler_rows parse now rows st')"

definition scheduler_tick :: "isoparser \<Rightarrow> datetime \<Rightarrow> state \<Rightarrow> state" where
  "scheduler_tick parse now st = snd (scheduler_try parse now st)"

text \<open>
  \<^verbatim>\<open>while not STATE["stop"]\<close>: one tick per clock reading, for the readings taken
  before the stop flag is seen.
\<close>

fun scheduler_loop :: "isoparser \<Rightarrow> datetime list \<Rightarrow> state \<Rightarrow> state" where
  "scheduler_loop parse [] st = st"
| "scheduler_loop parse (now # nows) st = scheduler_loop parse nows (scheduler_tick parse now st)"



section \<open>Action registry\<close>

text \<open>
  The handlers wrap external providers (applications, browser, clipboard, files, network).
  Each is called with the plan's arguments and either raises or returns a value, of which
  the dispatcher uses \<^verbatim>\<open>str(res)\<close> only. The family of handlers is a parameter: \<open>hs n a\<close>
  is the outcome of calling the function registered under \<open>n\<close> on the arguments \<open>a\<close>
  (by keyword for a dict, by position otherwise), a \<^verbatim>\<open>TypeError\<close> of the call included.
\<close>

type_synonym handler = "json \<Rightarrow> exn + string"

type_synonym handlers = "string \<Rightarrow> handler"

definition ACTION_NAMES :: "string list" where
  "ACTION_NAMES =
     [''open_app'', ''open_url'', ''weather'', ''set_reminder'', ''system_stats'',
      ''clipboard_set'', ''clipboard_get'', ''file_move'', ''file_delete'', ''search'',
      ''switch_desktop'', ''hotkeys'']"

definition ACTIONS :: "handlers \<Rightarrow> (string \<times> handler) list" where
  "ACTIONS hs = map (\<lambda>n. (n, hs n)) ACTION_NAMES"

text \<open>
  \<^verbatim>\<open>ACTIONS.get(name)\<close> for whatever JSON value sits under \<^verbatim>\<open>"name"\<close>: a list or a dict
  is unhashable and raises; a scalar that is not a registered string yields \<^verbatim>\<open>None\<close>.
\<close>

fun hashable :: "json \<Rightarrow> bool" where
  "hashable (JArr xs) = False"
| "hashable (JObj kvs) = False"
| "hashable v = True"

definition ACTIONS_get :: "handlers \<Rightarrow> json \<Rightarrow> exn + handler option" where
  "ACTIONS_get hs name =
     (if \<not> hashable name then Inl (TypeError ''unhashable type'')
      else (case name of JStr s \<Rightarrow> Inr (map_of (ACTIONS hs) s) | _ \<Rightarrow> Inr None))"

section \<open>Planner adapter\<close>

text \<open>
  The reasoning service: a request either raises (no connectivity, an API error, content
  that is not JSON) or yields the parsed content. \<open>None\<close> is \<^verbatim>\<open>_openai_client = None\<close>.
\<close>

type_synonym client = "string \<Rightarrow> exn + json"

record plan =
  reply :: json
  action :: json

definition nlu_error :: "exn \<Rightarrow> plan" where
  "nlu_error e = \<lparr>reply = JStr (''NLU error: '' @ str_exn e), action = JNull\<rparr>"

definition plan_with_openai :: "client option \<Rightarrow> string \<Rightarrow> plan" where
  "plan_with_openai cl user_text =
     (case cl of
        None \<Rightarrow> \<lparr>reply = JStr (''(OpenAI not configured) '' @ user_text), action = JNull\<rparr>
      | Some c \<Rightarrow>
          (case c user_text of
             Inl e \<Rightarrow> nlu_error e
           | Inr j \<Rightarrow>
               (case j of
                  JObj kvs \<Rightarrow>
                    \<lparr>reply = (let r = dict_get kvs ''reply'' JNull
                               in if truthy r then r else JStr []),
                     action = dict_get kvs ''action'' JNull\<rparr>
                | _ \<Rightarrow> nlu_error (AttributeError ''object has no attribute get''))))"

section \<open>Dispatcher\<close>

text \<open>
  \<open>(Some e, st')\<close> is the exception \<open>e\<close> leaving \<^verbatim>\<open>handle_user_text\<close>. The first
  \<^verbatim>\<open>db_log\<close> and the registry lookup stand outside the \<^verbatim>\<open>try\<close>; the call of the
  handler, the print of its result and the second \<^verbatim>\<open>db_log\<close> stand inside.
\<close>

definition action_error :: "json \<Rightarrow> exn \<Rightarrow> state \<Rightarrow> state" where
  "action_error name e st =
     print [Lit ''[action:'', Val name, Lit ''] error: '', Lit (str_exn e)] st"

definition handle_user_text ::
    "client option \<Rightarrow> handlers \<Rightarrow> datetime \<Rightarrow> string \<Rightarrow> state \<Rightarrow> exn option \<times> state" where
  "handle_user_text cl hs now user_text st =
     (case db_log now ''utterance'' (JObj [(''text'', JStr user_text)]) st of
        (Some e, st1) \<Rightarrow> (Some e, st1)
      | (None, st1) \<Rightarrow>
          (let p = plan_with_openai cl user_text;
               rep = (if truthy (reply p) then reply p else JStr []);
               st2 = (if truthy rep
                      then tts_say [Val rep] (print [Lit '' ASSISTANT: '', Val rep] st1)
                      else st1)
           in case action p of
                JObj kvs \<Rightarrow>
                  if kvs = [] then (None, st2)
                  else
                    (let name = dict_get kvs ''name'' JNull;
                         args = dict_get kvs ''args'' (JObj [])
                     in case ACTIONS_get hs name of
                          Inl e \<Rightarrow> (Some e, st2)
                        | Inr None \<Rightarrow> (None, print [Lit ''unknown action: '', Val name] st2)
                        | Inr (Some fn) \<Rightarrow>
                            (case fn args of
                               Inl e \<Rightarrow> (None, action_error name e st2)
                             | Inr res \<Rightarrow>
                                 (case db_log now ''action''
                                         (JObj [(''name'', name), (''args'', args),
                                                (''result'', JStr res)])
                                         (print [Lit ''[action:'', Val name, Lit ''] '', Lit res]
                                            st2) of
                                    (Some e, st3) \<Rightarrow> (None, action_error name e st3)
                                  | (None, st3) \<Rightarrow> (None, st3))))
              | _ \<Rightarrow> (None, st2)))"

section \<open>Input surfaces\<close>

text \<open>
  What one call of \<^verbatim>\<open>input()\<close> does: it returns a line, or raises \<^verbatim>\<open>EOFError\<close>, or
  raises \<^verbatim>\<open>KeyboardInterrupt\<close>. Each input comes with the clock reading of its moment.
\<close>

datatype input = Line string | EOF | Interrupt

definition is_space :: "char \<Rightarrow> bool" where
  "is_space c = ((of_char c :: nat) \<in> {9, 10, 11, 12, 13, 28, 29, 30, 31, 32})"

definition strip :: "string \<Rightarrow> string" where
  "strip s = rev (dropWhile is_space (rev (dropWhile is_space s)))"

definition lower_char :: "char \<Rightarrow> char" where
  "lower_char c =
     (case map_of (zip ''ABCDEFGHIJKLMNOPQRSTUVWXYZ'' ''abcdefghijklmnopqrstuvwxyz'') c of
        None \<Rightarrow> c
      | Some l \<Rightarrow> l)"

definition lower :: "string \<Rightarrow> string" where
  "lower s = map lower_char s"

text \<open>
  \<^verbatim>\<open>cli_loop\<close>: the line is stripped, an empty one skipped, \<^verbatim>\<open>exit\<close>/\<^verbatim>\<open>quit\<close> and the two
  input exceptions leave the loop; any other exception leaves \<^verbatim>\<open>cli_loop\<close> itself. An
  exhausted input is an end of file.
\<close>

fun cli_loop ::
    "client option \<Rightarrow> handlers \<Rightarrow> (datetime \<times> input) list \<Rightarrow> state \<Rightarrow> exn option \<times> state" where
  "cli_loop cl hs [] st = (None, st)"
| "cli_loop cl hs ((now, EOF) # ins) st = (None, st)"
| "cli_loop cl hs ((now, Interrupt) # ins) st = (None, st)"
| "cli_loop cl hs ((now, Line l) # ins) st =
     (let user_text = strip l
      in if user_text = [] then cli_loop cl hs ins st
         else if lower user_text \<in> {''exit'', ''quit''} then (None, st)
         else (case handle_user_text cl hs now user_text st of
                 (Some e, st') \<Rightarrow> (Some e, st')
               | (None, st') \<Rightarrow> cli_loop cl hs ins st'))"

text \<open>
  The hotkey callback of \<^verbatim>\<open>register_hotkey\<close>: the typed line goes to the dispatcher as
  it is; \<^verbatim>\<open>except Exception: pass\<close> swallows whatever is raised, a \<^verbatim>\<open>KeyboardInterrupt\<close>
  apart (the flag returned).
\<close>

definition on_hotkey ::
    "client option \<Rightarrow> handlers \<Rightarrow> datetime \<Rightarrow> input \<Rightarrow> state \<Rightarrow> bool \<times> state" where
  "on_hotkey cl hs now i st =
     (let st1 = print [Lit '' [Hotkey] Type your command:''] st
      in case i of
           Line user_text \<Rightarrow> (False, snd (handle_user_text cl hs now user_text st1))
         | EOF \<Rightarrow> (False, st1)
         | Interrupt \<Rightarrow> (True, st1))"

text \<open>
  The recognition loop of \<^verbatim>\<open>VoskListener.run\<close>, over the texts of the recognised
  results: an empty text is skipped; while inactive a text with the wake word arms the
  listener; while active the text is dispatched. An exception of the dispatcher ends the
  thread with a warning.
\<close>

text \<open>\<^verbatim>\<open>w in t\<close> on strings.\<close>

fun contains :: "string \<Rightarrow> string \<Rightarrow> bool" where
  "contains w [] = (w = [])"
| "contains w (c # cs) = (take (length w) (c # cs) = w \<or> contains w cs)"

definition APP_NAME :: string where
  "APP_NAME = ''Atlas Assistant''"

fun VoskListener_run ::
    "client option \<Rightarrow> handlers \<Rightarrow> string \<Rightarrow> (datetime \<times> string) list \<Rightarrow> bool \<Rightarrow> state \<Rightarrow> state" where
  "VoskListener_run cl hs wake [] active st = st"
| "VoskListener_run cl hs wake ((now, raw) # rs) active st =
     (let text = lower raw
      in if text = [] then VoskListener_run cl hs wake rs active st
         else if \<not> active
         then (if contains (lower wake) text
               then VoskListener_run cl hs wake rs True (notify APP_NAME ''Listening...'' st)
               else VoskListener_run cl hs wake rs active st)
         else (case handle_user_text cl hs now text st of
                 (Some e, st') \<Rightarrow> st'\<lparr>out := out st' @ [Logging [Lit ''Vosk error: '', Lit (str_exn e)]]\<rparr>
               | (None, st') \<Rightarrow> VoskListener_run cl hs wake rs False st'))"

section \<open>Sample inputs\<close>

text \<open>A clock reading, an empty store, two planners and two families of handlers.\<close>

definition t0 :: datetime where
  "t0 = \<lparr>year = 2024, month = 6, day = 1, hour = 10, minute = 0, second = 30, microsecond = 0\<rparr>"

definition empty_state :: state where
  "empty_state = \<lparr>reminders = [], logs = [], out = [], faults = []\<rparr>"

definition planner_open_app :: client where
  "planner_open_app u =
     Inr (JObj [(''reply'', JStr ''ok''),
                (''action'', JObj [(''name'', JStr ''open_app''),
                                   (''args'', JObj [(''name'', JStr ''vim'')])])])"

definition planner_unknown :: client where
  "planner_unknown u =
     Inr (JObj [(''reply'', JStr []), (''action'', JObj [(''name'', JStr ''do_the_thing'')])])"

definition failing_handlers :: handlers where
  "failing_handlers n a = Inl (ServiceError ''boom'')"

definition ok_handlers :: handlers where
  "ok_handlers n a = Inr ''ok''"



definition once_reminder :: reminder where
  "once_reminder =
     \<lparr>rid = 3, body = ''call home'', due_at = Some ''2024-01-01T09:00'', repeat_rule = None\<rparr>"

definition monthly_reminder :: reminder where
  "monthly_reminder =
     \<lparr>rid = 4, body = ''pay rent'', due_at = Some ''2024-02-01T08:00'',
      repeat_rule = Some ''monthly''\<rparr>"

definition vague_reminder :: reminder where
  "vague_reminder =
     \<lparr>rid = 5, body = ''someday'', due_at = Some ''tomorrow'', repeat_rule = None\<rparr>"



definition store_of :: "reminder list \<Rightarrow> state" where
  "store_of rs = \<lparr>reminders = rs, logs = [], out = [], faults = []\<rparr>"



section \<open>Date-time lemmas\<close>


lemma digit_char_not_sign: "n < 10 \<Longrightarrow> \<not> is_sign (digit_char n)"
  by (auto simp: eval_nat_numeral less_Suc_eq is_sign_def digit_char_def)













lemma digit_char_neq [simp]: "n < 10 \<Longrightarrow> digit_char n \<noteq> CHR ''+''" "n < 10 \<Longrightarrow> digit_char n \<noteq> CHR ''-''"
  using digit_char_not_sign[of n] by (auto simp: is_sign_def)






























section \<open>Dispatcher: properties\<close>

lemma db_log_ok:
  "\<not> fst (db_call st) \<Longrightarrow>
   db_log now k p st =
     (None, (snd (db_call st))\<lparr>logs := logs st @ [\<lparr>ts = isoformat_seconds now, kind = k, payload = p\<rparr>]\<rparr>)"
  by (auto simp: db_log_def db_call_def split: list.splits)

lemma db_log_fail:
  "fst (db_call st) \<Longrightarrow> db_log now k p st = (Some db_error, snd (db_call st))"
  by (auto simp: db_log_def db_call_def split: list.splits)

lemma db_call_fields [simp]:
  "logs (snd (db_call st)) = logs st" "out (snd (db_call st)) = out st"
  "reminders (snd (db_call st)) = reminders st"
  by (auto simp: db_call_def split: list.splits)

lemma db_log_logs:
  "logs (snd (db_log now k p st)) = logs st \<or>
   logs (snd (db_log now k p st)) = logs st @ [\<lparr>ts = isoformat_seconds now, kind = k, payload = p\<rparr>]"
  by (auto simp: db_log_def db_call_def split: list.splits bool.splits)

lemma surfaces_fields [simp]:
  "logs (print t st) = logs st" "logs (tts_say t st) = logs st" "logs (notify a b st) = logs st"
  "out (print t st) = out st @ [Print t]" "out (tts_say t st) = out st @ [Say t]"
  "out (notify a b st) = out st @ [Notification a b]"
  "reminders (print t st) = reminders st" "reminders (tts_say t st) = reminders st"
  "reminders (notify a b st) = reminders st"
  "faults (print t st) = faults st" "faults (tts_say t st) = faults st"
  "faults (notify a b st) = faults st"
  by (simp_all add: print_def tts_say_def notify_def)

lemma map_of_tabulate:
  "map_of (map (\<lambda>n. (n, f n)) xs) s = (if s \<in> set xs then Some (f s) else None)"
  by (induction xs) auto

lemma ACTIONS_lookup:
  "map_of (ACTIONS hs) s = (if s \<in> set ACTION_NAMES then Some (hs s) else None)"
  unfolding ACTIONS_def by (rule map_of_tabulate)

text \<open>
  At the utterance \<^verbatim>\<open>hello\<close> the fallback reply is not \<^verbatim>\<open>(unavailable) hello\<close>.
\<close>

theorem planner_fallback_counterexample:
  "reply (plan_with_openai None ''hello'') \<noteq> JStr ''(unavailable) hello''"
  by (simp add: plan_with_openai_def)

text \<open>
  Claim C2, as the code has it: with no client configured the planner returns the reply
  \<^verbatim>\<open>(OpenAI not configured) \<close> followed by the utterance and a null action; the dispatcher
  then attempts no action: its result does not depend on the handlers, and the log holds
  what the utterance's own append left there.
\<close>

theorem planner_fallback_no_client:
  "plan_with_openai None u = \<lparr>reply = JStr (''(OpenAI not configured) '' @ u), action = JNull\<rparr> \<and>
   handle_user_text None hs now u st = handle_user_text None hs' now u st \<and>
   logs (snd (handle_user_text None hs now u st)) = logs (snd (db_log now ''utterance'' (JObj [(''text'', JStr u)]) st))"
  by (auto simp: plan_with_openai_def handle_user_text_def Let_def split: prod.splits option.splits)

lemma ACTIONS_get_known:
  "s \<in> set ACTION_NAMES \<Longrightarrow> ACTIONS_get hs (JStr s) = Inr (Some (hs s))"
  by (simp add: ACTIONS_get_def ACTIONS_lookup)


text \<open>
  A planner asks for \<^verbatim>\<open>open_app\<close> and the handler raises: the log then holds the utterance
  entry alone, no entry of kind \<^verbatim>\<open>action\<close>.
\<close>

theorem handler_failure_counterexample:
  "map kind (logs (snd (handle_user_text (Some planner_open_app) failing_handlers t0
      ''open vim'' empty_state))) = [''utterance'']"
  by (simp add: handle_user_text_def plan_with_openai_def planner_open_app_def
      failing_handlers_def empty_state_def db_log_def db_call_def dict_get_def
      ACTIONS_get_known ACTION_NAMES_def action_error_def Let_def)

text \<open>
  Claim C1, as the code has it: when the plan names a registered action and its handler
  raises, the dispatcher catches the exception (nothing leaves \<^verbatim>\<open>handle_user_text\<close>),
  prints it as \<^verbatim>\<open>[action:name] error: message\<close>, and keeps the log entry of the
  triggering utterance; it appends no log entry for the failed action.
\<close>

theorem handler_failure_reported_not_logged:
  assumes "action (plan_with_openai cl u) = JObj kvs" and "kvs \<noteq> []"
    and "dict_get kvs ''name'' JNull = JStr n" and "n \<in> set ACTION_NAMES"
    and "hs n (dict_get kvs ''args'' (JObj [])) = Inl e"
    and "\<not> fst (db_call st)"
  shows "fst (handle_user_text cl hs now u st) = None \<and>
         logs (snd (handle_user_text cl hs now u st)) =
           logs st @ [\<lparr>ts = isoformat_seconds now, kind = ''utterance'',
                       payload = JObj [(''text'', JStr u)]\<rparr>] \<and>
         last (out (snd (handle_user_text cl hs now u st))) =
           Print [Lit ''[action:'', Val (JStr n), Lit ''] error: '', Lit (str_exn e)]"
  using assms
  by (simp add: handle_user_text_def db_log_ok Let_def ACTIONS_get_known action_error_def)

theorem handler_failure_reported_not_logged_witness:
  "fst (handle_user_text (Some planner_open_app) failing_handlers t0 ''open vim'' empty_state) = None \<and>
   logs (snd (handle_user_text (Some planner_open_app) failing_handlers t0 ''open vim'' empty_state)) =
     logs empty_state @ [\<lparr>ts = isoformat_seconds t0, kind = ''utterance'',
                       payload = JObj [(''text'', JStr ''open vim'')]\<rparr>] \<and>
   last (out (snd (handle_user_text (Some planner_open_app) failing_handlers t0 ''open vim'' empty_state))) =
     Print [Lit ''[action:'', Val (JStr ''open_app''), Lit ''] error: '', Lit ''boom'']"
  using handler_failure_reported_not_logged
    [of "Some planner_open_app" "''open vim''"
        "[(''name'', JStr ''open_app''), (''args'', JObj [(''name'', JStr ''vim'')])]"
        "''open_app''" failing_handlers "ServiceError ''boom''" empty_state t0]
  by (simp add: plan_with_openai_def planner_open_app_def failing_handlers_def empty_state_def
      db_call_def dict_get_def ACTION_NAMES_def)

lemma db_log_result:
  "db_log now k p s = (e, s') \<Longrightarrow>
   logs s' = logs s \<or> logs s' = logs s @ [\<lparr>ts = isoformat_seconds now, kind = k, payload = p\<rparr>]"
  using db_log_logs [of now k p s] by simp

text \<open>
  The first database call fails: the exception leaves \<^verbatim>\<open>handle_user_text\<close>, nothing is
  printed, the planner's action is not executed.
\<close>

theorem utterance_log_failure_counterexample:
  "handle_user_text (Some planner_open_app) ok_handlers t0 ''open vim''
     (empty_state\<lparr>faults := [True]\<rparr>) = (Some db_error, empty_state)"
  by (simp add: handle_user_text_def db_log_def db_call_def empty_state_def)

text \<open>
  Claim C7, as the code has it: the dispatcher first appends the log entry of kind
  \<^verbatim>\<open>utterance\<close> with the text as payload, whatever the text and the plan are. When the
  append succeeds the entry stands in the log before anything the rest of the call adds;
  when it fails, the exception leaves \<^verbatim>\<open>handle_user_text\<close> at once, so the planner is not
  called and no action is executed.
\<close>

theorem utterance_logged_first:
  "(\<not> fst (db_call st) \<longrightarrow>
      (\<exists>rest. logs (snd (handle_user_text cl hs now u st)) =
         logs st @ \<lparr>ts = isoformat_seconds now, kind = ''utterance'',
                     payload = JObj [(''text'', JStr u)]\<rparr> # rest)) \<and>
   (fst (db_call st) \<longrightarrow>
      handle_user_text cl hs now u st = (Some db_error, snd (db_call st)))"
proof (intro conjI impI)
  assume ok: "\<not> fst (db_call st)"
  show "\<exists>rest. logs (snd (handle_user_text cl hs now u st)) =
         logs st @ \<lparr>ts = isoformat_seconds now, kind = ''utterance'',
                     payload = JObj [(''text'', JStr u)]\<rparr> # rest"
    using ok
    by (auto simp: handle_user_text_def db_log_ok Let_def action_error_def
        split: json.splits sum.splits option.splits prod.splits dest: db_log_result)
next
  assume "fst (db_call st)"
  then show "handle_user_text cl hs now u st = (Some db_error, snd (db_call st))"
    by (simp add: handle_user_text_def db_log_fail)
qed

theorem utterance_logged_first_witness:
  "(\<exists>rest. logs (snd (handle_user_text (Some planner_open_app) ok_handlers t0 ''open vim'' empty_state)) =
         logs empty_state @ \<lparr>ts = isoformat_seconds t0, kind = ''utterance'',
                     payload = JObj [(''text'', JStr ''open vim'')]\<rparr> # rest) \<and>
   handle_user_text (Some planner_open_app) ok_handlers t0 ''open vim'' (empty_state\<lparr>faults := [True]\<rparr>)
     = (Some db_error, snd (db_call (empty_state\<lparr>faults := [True]\<rparr>)))"
  using utterance_logged_first [of empty_state "Some planner_open_app" ok_handlers t0 "''open vim''"]
    utterance_logged_first [of "empty_state\<lparr>faults := [True]\<rparr>" "Some planner_open_app" ok_handlers t0 "''open vim''"]
  by (simp add: db_call_def empty_state_def)




text \<open>
  Claim C9 at the hotkey prompt: an empty line typed there reaches the dispatcher, which
  logs it and calls the planner (whose unknown action is reported). The console loop and
  the voice listener do discard such input, as the three lemmas after this one show.
\<close>

theorem hotkey_forwards_empty_utterance:
  "snd (on_hotkey (Some planner_unknown) ok_handlers t0 (Line []) empty_state) =
     \<lparr>reminders = [],
      logs = [\<lparr>ts = isoformat_seconds t0, kind = ''utterance'', payload = JObj [(''text'', JStr [])]\<rparr>],
      out = [Print [Lit '' [Hotkey] Type your command:''],
             Print [Lit ''unknown action: '', Val (JStr ''do_the_thing'')]],
      faults = []\<rparr>"
  by (simp add: on_hotkey_def handle_user_text_def plan_with_openai_def planner_unknown_def
      empty_state_def db_log_def db_call_def dict_get_def ACTIONS_get_def ACTIONS_lookup
      ACTION_NAMES_def print_def Let_def)

lemma strip_blank: "\<forall>c\<in>set l. is_space c \<Longrightarrow> strip l = []"
proof -
  assume "\<forall>c\<in>set l. is_space c"
  then have e: "dropWhile is_space l = []" by (simp only: dropWhile_eq_Nil_conv)
  show ?thesis unfolding strip_def e by simp
qed

lemma cli_loop_skips_blank:
  "\<forall>c\<in>set l. is_space c \<Longrightarrow> cli_loop cl hs ((now, Line l) # ins) st = cli_loop cl hs ins st"
  by (simp add: strip_blank)

lemma voice_skips_empty:
  "VoskListener_run cl hs wake ((now, []) # rs) active st = VoskListener_run cl hs wake rs active st"
  by (simp add: lower_def)

section \<open>Scheduler: properties\<close>

lemma db_call_faults: "faults (snd (db_call st)) = tl (faults st)"
  by (auto simp: db_call_def split: list.splits)

lemma delete_reminder_ok:
  "\<not> fst (db_call st) \<Longrightarrow>
   delete_reminder i st =
     (None, (snd (db_call st))\<lparr>reminders := filter (\<lambda>r. rid r \<noteq> i) (reminders st)\<rparr>)"
  by (auto simp: delete_reminder_def db_call_def split: list.splits)

lemma delete_reminder_fail:
  "fst (db_call st) \<Longrightarrow> delete_reminder i st = (Some db_error, snd (db_call st))"
  by (auto simp: delete_reminder_def db_call_def split: list.splits)

lemma update_due_at_ok:
  "\<not> fst (db_call st) \<Longrightarrow>
   update_due_at i v st =
     (None, (snd (db_call st))\<lparr>reminders :=
        map (\<lambda>r. if rid r = i then r\<lparr>due_at := Some v\<rparr> else r) (reminders st)\<rparr>)"
  by (auto simp: update_due_at_def db_call_def split: list.splits)

lemma update_due_at_fail:
  "fst (db_call st) \<Longrightarrow> update_due_at i v st = (Some db_error, snd (db_call st))"
  by (auto simp: update_due_at_def db_call_def split: list.splits)

lemma delete_reminder_cases:
  assumes "delete_reminder i st = (e, st')"
  shows "(e = None \<and> reminders st' = filter (\<lambda>r. rid r \<noteq> i) (reminders st)) \<or>
         (e = Some db_error \<and> reminders st' = reminders st)"
  using assms by (cases "fst (db_call st)") (auto simp: delete_reminder_ok delete_reminder_fail)

lemma update_due_at_cases:
  assumes "update_due_at i v st = (e, st')"
  shows "(e = None \<and> reminders st' =
            map (\<lambda>r. if rid r = i then r\<lparr>due_at := Some v\<rparr> else r) (reminders st)) \<or>
         (e = Some db_error \<and> reminders st' = reminders st)"
  using assms by (cases "fst (db_call st)") (auto simp: update_due_at_ok update_due_at_fail)

text \<open>What one row can do to the table: nothing, one update of its own due time, or one deletion of its own id.\<close>

lemma scheduler_row_table:
  assumes "scheduler_row parse now r st = (e, st')"
  shows "reminders st' = reminders st \<or>
         (e = None \<and> (\<exists>v. reminders st' =
            map (\<lambda>x. if rid x = rid r then x\<lparr>due_at := Some v\<rparr> else x) (reminders st))) \<or>
         (e = None \<and> reminders st' = filter (\<lambda>x. rid x \<noteq> rid r) (reminders st))"
  using assms
  by (auto simp: scheduler_row_def Let_def
      split: sum.splits prod.splits option.splits if_splits
      dest!: delete_reminder_cases update_due_at_cases)



lemma scheduler_row_others:
  assumes "scheduler_row parse now r st = (e, st')" and "x \<in> set (reminders st)" and "rid x \<noteq> rid r"
  shows "x \<in> set (reminders st')"
  using scheduler_row_table [OF assms(1)] assms(2,3) by (auto simp: image_iff)

lemma scheduler_row_raise:
  assumes "scheduler_row parse now r st = (Some e, st')"
  shows "reminders st' = reminders st"
  using scheduler_row_table [OF assms] by auto






lemma scheduler_row_unparsable:
  "parse (due_at r) = Inl e \<Longrightarrow> scheduler_row parse now r st = (None, st)"
  by (simp add: scheduler_row_def)

lemma scheduler_row_pending:
  "parse (due_at r) = Inr (dt, None) \<Longrightarrow> \<not> dt_ge now dt \<Longrightarrow>
   scheduler_row parse now r st = (None, st)"
  by (simp add: scheduler_row_def)


lemma scheduler_rows_others:
  "scheduler_rows parse now rows st = (e, st') \<Longrightarrow> x \<in> set (reminders st) \<Longrightarrow>
   rid x \<notin> rid ` set rows \<Longrightarrow> x \<in> set (reminders st')"
proof (induction rows arbitrary: st)
  case Nil
  then show ?case by simp
next
  case (Cons r rs)
  obtain e1 st1 where row: "scheduler_row parse now r st = (e1, st1)" by (cases "scheduler_row parse now r st")
  have a: "x \<in> set (reminders st1)"
    using row Cons.prems(2,3) by (intro scheduler_row_others [OF row]) auto
  show ?case
  proof (cases e1)
    case None
    with Cons.prems row have "scheduler_rows parse now rs st1 = (e, st')" by simp
    from Cons.IH [OF this a] Cons.prems(3) show ?thesis by simp
  next
    case (Some y)
    with Cons.prems row have "st' = st1" by simp
    with a show ?thesis by simp
  qed
qed



lemma select_reminders_ok:
  "\<not> fst (db_call st) \<Longrightarrow> select_reminders st = (Inr (reminders st), snd (db_call st))"
  by (auto simp: select_reminders_def db_call_def split: list.splits)

lemma select_reminders_fail:
  "fst (db_call st) \<Longrightarrow> select_reminders st = (Inl db_error, snd (db_call st))"
  by (auto simp: select_reminders_def db_call_def split: list.splits)

lemma scheduler_try_rows:
  "scheduler_try parse now st =
     (if fst (db_call st) then (Some db_error, snd (db_call st))
      else scheduler_rows parse now (reminders st) (snd (db_call st)))"
  by (simp add: scheduler_try_def select_reminders_ok select_reminders_fail)

lemma scheduler_rows_append:
  "scheduler_rows parse now (xs @ ys) st =
     (case scheduler_rows parse now xs st of
        (None, st1) \<Rightarrow> scheduler_rows parse now ys st1
      | (Some e, st1) \<Rightarrow> (Some e, st1))"
  by (induction xs arbitrary: st) (auto split: prod.splits option.splits)










lemmas parse_defs = read_isoformat_def parse_date_def parse_isoformat_time_def
  parse_hh_mm_ss_ff_def parse_offset_def is_sign_def digit_val_def valid_datetime_def
  days_in_month_def DAYS_IN_MONTH_def is_leap_def




lemma once_due_parse:
  "read_isoformat (due_at once_reminder) =
     Inr (\<lparr>year = 2024, month = 1, day = 1, hour = 9, minute = 0, second = 0, microsecond = 0\<rparr>, None)"
  by (simp add: once_reminder_def parse_defs)












lemma once_row:
  "scheduler_row read_isoformat t0 once_reminder st =
     delete_reminder 3
       (tts_say [Lit ''Reminder: '', Lit ''call home''] (notify ''Reminder'' ''call home'' st))"
proof -
  have f: "repeat_rule once_reminder = None" "rid once_reminder = 3"
    "body once_reminder = ''call home''" by (simp_all add: once_reminder_def)
  show ?thesis
    unfolding scheduler_row_def once_due_parse f
    by (simp add: dt_ge_def dt_fields_def t0_def Let_def)
qed




































lemma monthly_due_parse:
  "read_isoformat (due_at monthly_reminder) =
     Inr (\<lparr>year = 2024, month = 2, day = 1, hour = 8, minute = 0, second = 0, microsecond = 0\<rparr>, None)"
  by (simp add: monthly_reminder_def parse_defs)

lemma monthly_due: "dt_ge t0 \<lparr>year = 2024, month = 2, day = 1, hour = 8, minute = 0, second = 0,
      microsecond = 0\<rparr>"
  by (simp add: dt_ge_def dt_fields_def t0_def)


lemma monthly_tick:
  "scheduler_try read_isoformat t0 (store_of [monthly_reminder]) =
     (None, \<lparr>reminders = [], logs = [],
             out = [Notification ''Reminder'' ''pay rent'',
                    Say [Lit ''Reminder: '', Lit ''pay rent'']],
             faults = []\<rparr>)"
proof -
  have f: "repeat_rule monthly_reminder = Some ''monthly''" "rid monthly_reminder = 4"
    "body monthly_reminder = ''pay rent''" by (simp_all add: monthly_reminder_def)
  have row: "scheduler_row read_isoformat t0 monthly_reminder st =
     delete_reminder 4
       (tts_say [Lit ''Reminder: '', Lit ''pay rent''] (notify ''Reminder'' ''pay rent'' st))" for st
    unfolding scheduler_row_def monthly_due_parse f
    by (simp add: monthly_due [simplified] next_due_def Let_def)
  show ?thesis
    by (simp add: scheduler_try_rows store_of_def db_call_def row
        delete_reminder_def notify_def tts_say_def f)
qed


lemma scheduler_rows_skip:
  assumes "parse (due_at r) = Inl e"
  shows "scheduler_rows parse now (xs @ r # ys) st = scheduler_rows parse now (xs @ ys) st"
  unfolding scheduler_rows_append
  by (auto simp: scheduler_row_unparsable [where parse = parse, OF assms] split: prod.splits option.splits)

lemma vague_due_parse:
  "read_isoformat (due_at vague_reminder) = Inl (ValueError ''Invalid isoformat string: tomorrow'')"
  by (simp add: vague_reminder_def parse_defs)

text \<open>
  Two due reminders, and the database call that deletes the first one fails: the tick
  ends there, the second reminder is neither notified nor deleted, while a tick on it alone
  notifies and deletes it.
\<close>

theorem storage_error_counterexample:
  "scheduler_try read_isoformat t0 ((store_of [once_reminder, monthly_reminder])\<lparr>faults := [False, True]\<rparr>) =
     (Some db_error,
      \<lparr>reminders = [once_reminder, monthly_reminder], logs = [],
       out = [Notification ''Reminder'' ''call home'', Say [Lit ''Reminder: '', Lit ''call home'']],
       faults = []\<rparr>) \<and>
   scheduler_try read_isoformat t0 (store_of [monthly_reminder]) =
     (None,
      \<lparr>reminders = [], logs = [],
       out = [Notification ''Reminder'' ''pay rent'', Say [Lit ''Reminder: '', Lit ''pay rent'']],
       faults = []\<rparr>)"
proof (intro conjI)
  show "scheduler_try read_isoformat t0 ((store_of [once_reminder, monthly_reminder])\<lparr>faults := [False, True]\<rparr>) =
     (Some db_error,
      \<lparr>reminders = [once_reminder, monthly_reminder], logs = [],
       out = [Notification ''Reminder'' ''call home'', Say [Lit ''Reminder: '', Lit ''call home'']],
       faults = []\<rparr>)"
    by (simp add: scheduler_try_rows store_of_def db_call_def once_row
        delete_reminder_def notify_def tts_say_def)
next
  show "scheduler_try read_isoformat t0 (store_of [monthly_reminder]) =
     (None,
      \<lparr>reminders = [], logs = [],
       out = [Notification ''Reminder'' ''pay rent'', Say [Lit ''Reminder: '', Lit ''pay rent'']],
       faults = []\<rparr>)"
    by (rule monthly_tick)
qed

text \<open>
  Claim C6, as the code has it. A due timestamp that cannot be parsed is isolated to its
  reminder: the loop does on the rows with that reminder what it does on the rows
  without it, and the reminder stays in the store. Any other exception raised in the loop
  body (a storage error while rescheduling or deleting, an aware timestamp, an overflow)
  is swallowed by the tick, so that the loop goes on and nothing is removed, but it ends
  the tick: the rows before it keep their effect, the rows after it are not processed.
\<close>

theorem reminder_exception_isolation:
  "(parse (due_at r) = Inl e \<longrightarrow>
      scheduler_rows parse now (xs @ r # ys) st = scheduler_rows parse now (xs @ ys) st \<and>
      (r \<in> set (reminders st) \<and> rid r \<notin> rid ` set (xs @ ys) \<longrightarrow>
         r \<in> set (reminders (snd (scheduler_rows parse now (xs @ r # ys) st))))) \<and>
   (scheduler_rows parse now xs st = (None, st1) \<and> scheduler_row parse now r st1 = (Some ex, st2) \<longrightarrow>
      scheduler_rows parse now (xs @ r # ys) st = (Some ex, st2) \<and> reminders st2 = reminders st1)"
proof (intro conjI impI)
  assume p: "parse (due_at r) = Inl e"
  then show "scheduler_rows parse now (xs @ r # ys) st = scheduler_rows parse now (xs @ ys) st"
    by (rule scheduler_rows_skip [where parse = parse])
next
  assume p: "parse (due_at r) = Inl e"
    and m: "r \<in> set (reminders st) \<and> rid r \<notin> rid ` set (xs @ ys)"
  obtain e' st' where rows: "scheduler_rows parse now (xs @ ys) st = (e', st')"
    by (cases "scheduler_rows parse now (xs @ ys) st")
  from m have "r \<in> set (reminders st)" "rid r \<notin> rid ` set (xs @ ys)" by blast+
  from scheduler_rows_others [OF rows this] have "r \<in> set (reminders st')" .
  then show "r \<in> set (reminders (snd (scheduler_rows parse now (xs @ r # ys) st)))"
    by (simp only: scheduler_rows_skip [where parse = parse, OF p] rows snd_conv)
next
  assume a: "scheduler_rows parse now xs st = (None, st1) \<and> scheduler_row parse now r st1 = (Some ex, st2)"
  then show "scheduler_rows parse now (xs @ r # ys) st = (Some ex, st2)"
    by (simp add: scheduler_rows_append)
  from a show "reminders st2 = reminders st1"
    by (intro scheduler_row_raise [where parse = parse and now = now and r = r and e = ex]) simp
qed

theorem reminder_exception_isolation_witness:
  "scheduler_rows read_isoformat t0 ([once_reminder] @ vague_reminder # [monthly_reminder])
       (store_of [once_reminder, vague_reminder, monthly_reminder]) =
     scheduler_rows read_isoformat t0 ([once_reminder] @ [monthly_reminder])
       (store_of [once_reminder, vague_reminder, monthly_reminder]) \<and>
   vague_reminder \<in> set (reminders (snd (scheduler_rows read_isoformat t0
       ([once_reminder] @ vague_reminder # [monthly_reminder])
       (store_of [once_reminder, vague_reminder, monthly_reminder])))) \<and>
   scheduler_rows read_isoformat t0 ([] @ once_reminder # [monthly_reminder])
       ((store_of [once_reminder, monthly_reminder])\<lparr>faults := [True]\<rparr>) =
     (Some db_error,
      \<lparr>reminders = [once_reminder, monthly_reminder], logs = [],
       out = [Notification ''Reminder'' ''call home'', Say [Lit ''Reminder: '', Lit ''call home'']],
       faults = []\<rparr>)"
proof -
  let ?st = "store_of [once_reminder, vague_reminder, monthly_reminder]"
  let ?sf = "(store_of [once_reminder, monthly_reminder])\<lparr>faults := [True]\<rparr>"
  let ?s2 = "\<lparr>reminders = [once_reminder, monthly_reminder], logs = [],
       out = [Notification ''Reminder'' ''call home'', Say [Lit ''Reminder: '', Lit ''call home'']],
       faults = []\<rparr>"
  have m: "vague_reminder \<in> set (reminders ?st) \<and>
           rid vague_reminder \<notin> rid ` set ([once_reminder] @ [monthly_reminder])"
    by (simp add: store_of_def vague_reminder_def once_reminder_def monthly_reminder_def)
  have r1: "scheduler_rows read_isoformat t0 [] ?sf = (None, ?sf)" by simp
  have r2: "scheduler_row read_isoformat t0 once_reminder ?sf = (Some db_error, ?s2)"
    by (simp add: once_row store_of_def delete_reminder_def db_call_def notify_def tts_say_def)
  note a = reminder_exception_isolation
    [where parse = read_isoformat and r = vague_reminder and e = "ValueError ''Invalid isoformat string: tomorrow''"
       and now = t0 and xs = "[once_reminder]" and ys = "[monthly_reminder]" and st = ?st]
  note b = reminder_exception_isolation
    [where parse = read_isoformat and r = once_reminder and now = t0 and xs = "[]" and ys = "[monthly_reminder]"
       and st = ?sf and ?st1.0 = ?sf and ex = db_error and ?st2.0 = ?s2]
  have 1: "scheduler_rows read_isoformat t0 ([once_reminder] @ vague_reminder # [monthly_reminder]) ?st =
           scheduler_rows read_isoformat t0 ([once_reminder] @ [monthly_reminder]) ?st"
    using a vague_due_parse by blast
  have 2: "vague_reminder \<in> set (reminders (snd (scheduler_rows read_isoformat t0
             ([once_reminder] @ vague_reminder # [monthly_reminder]) ?st)))"
    using a vague_due_parse m by blast
  have 3: "scheduler_rows read_isoformat t0 ([] @ once_reminder # [monthly_reminder]) ?sf = (Some db_error, ?s2)"
    using b r1 r2 by blast
  from 1 2 3 show ?thesis by blast
qed

end
